theory Spec2Isabelle
  imports Complex_Main
begin

section \<open>JavaScript values used by the module\<close>

text \<open>
  The module \<^verbatim>\<open>src/js/modules/google-maps.js\<close> has three classes: \<^verbatim>\<open>MapOptions\<close>
  (configuration read from an options object and from the live document), \<^verbatim>\<open>Geocoder\<close>
  (a promise wrapper around the provider's geocoder) and \<^verbatim>\<open>Map\<close> (the widget).

  JavaScript numbers are IEEE doubles. Coordinates are modelled as reals carrying the value
  of the decimal literal, integers (the result of \<^verbatim>\<open>parseInt\<close>, zoom levels) as \<open>int\<close>.
  \<^verbatim>\<open>NaN\<close> is the \<open>None\<close> of \<^verbatim>\<open>parseInt\<close>; it does not occur among coordinates here.
  A thrown exception is a value of type \<open>error\<close>.
\<close>

datatype error = Error string | TypeError | ReferenceError

subsection \<open>The document\<close>

text \<open>
  The only thing the module reads from an element is its \<^verbatim>\<open>value\<close>. A document maps a
  selector to the element \<^verbatim>\<open>document.querySelector\<close> returns for it, \<open>None\<close> being
  \<^verbatim>\<open>null\<close>.
\<close>

record element =
  elem_value :: string

type_synonym document = "string \<Rightarrow> element option"

definition querySelector :: "document \<Rightarrow> string \<Rightarrow> element option" where
  "querySelector d s = d s"

subsection \<open>parseInt\<close>

text \<open>
  \<^verbatim>\<open>parseInt(s)\<close> with no radix, as ECMAScript defines it on ASCII input: leading white
  space is skipped, then an optional sign, then an optional \<^verbatim>\<open>0x\<close> prefix that selects radix
  16; the longest prefix of digits of the radix is the number, and there being none gives
  \<^verbatim>\<open>NaN\<close> (\<open>None\<close>).
\<close>

definition isWhiteSpace :: "char \<Rightarrow> bool" where
  "isWhiteSpace c = (c = CHR '' '' \<or> c = CHR 0x09 \<or> c = CHR 0x0A \<or> c = CHR 0x0B
      \<or> c = CHR 0x0C \<or> c = CHR 0x0D)"

definition digitValue :: "char \<Rightarrow> nat option" where
  "digitValue c =
     (let n = (of_char c :: nat) in
      if 48 \<le> n \<and> n \<le> 57 then Some (n - 48)
      else if 97 \<le> n \<and> n \<le> 122 then Some (n - 87)
      else if 65 \<le> n \<and> n \<le> 90 then Some (n - 55)
      else None)"

fun radixDigits :: "nat \<Rightarrow> string \<Rightarrow> nat list" where
  "radixDigits R [] = []"
| "radixDigits R (c # cs) =
     (case digitValue c of
        None \<Rightarrow> []
      | Some v \<Rightarrow> if v < R then v # radixDigits R cs else [])"

definition stripSign :: "string \<Rightarrow> int \<times> string" where
  "stripSign s =
     (case s of
        [] \<Rightarrow> (1, [])
      | c # cs \<Rightarrow> if c = CHR ''-'' then (- 1, cs) else if c = CHR ''+'' then (1, cs) else (1, s))"

definition stripPrefix :: "string \<Rightarrow> nat \<times> string" where
  "stripPrefix s =
     (case s of
        c1 # c2 # cs \<Rightarrow>
          if c1 = CHR ''0'' \<and> (c2 = CHR ''x'' \<or> c2 = CHR ''X'') then (16, cs) else (10, s)
      | _ \<Rightarrow> (10, s))"

definition parseInt :: "string \<Rightarrow> int option" where
  "parseInt s =
     (let (sign, s1) = stripSign (dropWhile isWhiteSpace s);
          (R, s2) = stripPrefix s1;
          ds = radixDigits R s2
      in if ds = [] then None
         else Some (sign * int (foldl (\<lambda>a v. a * R + v) 0 ds)))"

section \<open>MapOptions\<close>

text \<open>
  The options object. A property that is absent (\<^verbatim>\<open>undefined\<close>) is \<open>None\<close>. A selector
  is a string; the empty string is falsy.
\<close>

record selectors =
  sel_map :: "string option"
  sel_autocomplete :: "string option"
  sel_radius :: "string option"
  sel_country :: "string option"

record location =
  latitude :: real
  longitude :: real

record options =
  selectors :: "selectors option"
  opt_location :: "location option"
  opt_zoom :: "int option"
  opt_mapType :: "string option"

datatype MapOptions = MapOptions (the_options: options)

text \<open>
  The test \<^verbatim>\<open>sel && document.querySelector(sel)\<close>, which the constructor and the getters
  \<^verbatim>\<open>autocomplete\<close>, \<^verbatim>\<open>radius\<close> and \<^verbatim>\<open>country\<close> all make: the selector is given, is not
  the empty string, and the document has an element for it.
\<close>

definition resolvable :: "document \<Rightarrow> string option \<Rightarrow> bool" where
  "resolvable d sel =
     (case sel of None \<Rightarrow> False | Some s \<Rightarrow> s \<noteq> [] \<and> querySelector d s \<noteq> None)"

definition MapOptions_constructor :: "document \<Rightarrow> options \<Rightarrow> error + MapOptions" where
  "MapOptions_constructor d opts =
     (case selectors opts of
        None \<Rightarrow> Inl (Error ''Map element selector is required!'')
      | Some s \<Rightarrow>
          if \<not> resolvable d (sel_map s)
          then Inl (Error ''Map element selector is required!'')
          else if resolvable d (sel_country s) \<and> \<not> resolvable d (sel_autocomplete s)
          then Inl (Error
            ''Autocomplete input selector is required to scope autocomplete results by country!'')
          else Inr (MapOptions opts))"

text \<open>
  The getters read \<^verbatim>\<open>this._options.selectors\<close> without a check: on an options object
  with no \<^verbatim>\<open>selectors\<close> they throw. The constructor admits no such object.
\<close>

definition get_map :: "MapOptions \<Rightarrow> error + string option" where
  "get_map m =
     (case selectors (the_options m) of None \<Rightarrow> Inl TypeError | Some s \<Rightarrow> Inr (sel_map s))"

definition get_autocomplete :: "document \<Rightarrow> MapOptions \<Rightarrow> error + string" where
  "get_autocomplete d m =
     (case selectors (the_options m) of
        None \<Rightarrow> Inl TypeError
      | Some s \<Rightarrow>
          if resolvable d (sel_autocomplete s)
          then (case sel_autocomplete s of Some a \<Rightarrow> Inr a | None \<Rightarrow> Inr [])
          else Inr [])"

definition get_radius :: "document \<Rightarrow> MapOptions \<Rightarrow> error + string option" where
  "get_radius d m =
     (case selectors (the_options m) of
        None \<Rightarrow> Inl TypeError
      | Some s \<Rightarrow> if resolvable d (sel_radius s) then Inr (sel_radius s) else Inr None)"

definition get_country :: "document \<Rightarrow> MapOptions \<Rightarrow> error + string option" where
  "get_country d m =
     (case selectors (the_options m) of
        None \<Rightarrow> Inl TypeError
      | Some s \<Rightarrow> if resolvable d (sel_country s) then Inr (sel_country s) else Inr None)"

definition get_location :: "MapOptions \<Rightarrow> location option" where
  "get_location m = opt_location (the_options m)"

definition get_zoom :: "MapOptions \<Rightarrow> int" where
  "get_zoom m = (case opt_zoom (the_options m) of None \<Rightarrow> 11 | Some z \<Rightarrow> if z = 0 then 11 else z)"

definition get_mapType :: "MapOptions \<Rightarrow> string" where
  "get_mapType m =
     (case opt_mapType (the_options m) of None \<Rightarrow> ''hybrid'' | Some t \<Rightarrow> if t = [] then ''hybrid'' else t)"

text \<open>
  \<^verbatim>\<open>radiusInMeters\<close>: \<^verbatim>\<open>this.radius ? parseInt(document.querySelector(this.radius).value) || 5000 : 5000\<close>.
  The element is looked up a second time; \<^verbatim>\<open>null.value\<close> would throw.
\<close>

definition radiusInMeters :: "document \<Rightarrow> MapOptions \<Rightarrow> error + int" where
  "radiusInMeters d m =
     (case get_radius d m of
        Inl e \<Rightarrow> Inl e
      | Inr None \<Rightarrow> Inr 5000
      | Inr (Some sel) \<Rightarrow>
          if sel = [] then Inr 5000
          else (case querySelector d sel of
                  None \<Rightarrow> Inl TypeError
                | Some el \<Rightarrow>
                    (case parseInt (elem_value el) of
                       None \<Rightarrow> Inr 5000
                     | Some n \<Rightarrow> if n = 0 then Inr 5000 else Inr n)))"

text \<open>
  \<^verbatim>\<open>hasLocation\<close> is documented to return a boolean. It returns the value of an
  \<^verbatim>\<open>&&\<close> chain: the first falsy operand (\<^verbatim>\<open>undefined\<close>, or a zero coordinate), or else
  the last operand, the longitude. Its caller reads it through \<^verbatim>\<open>!\<close>.
\<close>

datatype jsvalue = JUndefined | JBoolean bool | JNumber real

definition truthy :: "jsvalue \<Rightarrow> bool" where
  "truthy v = (case v of JUndefined \<Rightarrow> False | JBoolean b \<Rightarrow> b | JNumber x \<Rightarrow> x \<noteq> 0)"

definition hasLocation :: "MapOptions \<Rightarrow> jsvalue" where
  "hasLocation m =
     (case opt_location (the_options m) of
        None \<Rightarrow> JUndefined
      | Some l \<Rightarrow>
          if \<not> truthy (JNumber (latitude l)) then JNumber (latitude l)
          else JNumber (longitude l))"

section \<open>Geocoder\<close>

subsection \<open>Address components\<close>

datatype GeocoderStatus =
  OK | OVER_QUERY_LIMIT | ZERO_RESULTS | REQUEST_DENIED | INVALID_REQUEST | UNKNOWN_ERROR

record address_component =
  long_name :: string
  short_name :: string
  types :: "string list"

record GeocoderResult =
  address_components :: "address_component list"
  formatted_address :: string

text \<open>A slot \<^verbatim>\<open>{longName, shortName}\<close>; \<open>None\<close> is \<^verbatim>\<open>null\<close>.\<close>

record names =
  longName :: "string option"
  shortName :: "string option"

record AddressComponents =
  postalCode :: names
  streetNumber :: names
  streetName :: names
  city :: names
  district :: names
  stateOrProvince :: names
  country :: names
  formattedAddress :: "string option"

text \<open>\<^verbatim>\<open>Array.prototype.indexOf\<close>: the first index of the element, or \<open>-1\<close>.\<close>

fun indexOf :: "string list \<Rightarrow> string \<Rightarrow> int" where
  "indexOf [] x = - 1"
| "indexOf (y # ys) x =
     (if y = x then 0 else (let i = indexOf ys x in if i \<ge> 0 then i + 1 else - 1))"

definition namesOf :: "address_component \<Rightarrow> names" where
  "namesOf c = \<lparr>longName = Some (long_name c), shortName = Some (short_name c)\<rparr>"

text \<open>The body of the loop of the setter: the \<^verbatim>\<open>if\<close>/\<^verbatim>\<open>else if\<close> chain on one component.\<close>

definition assignComponent :: "address_component \<Rightarrow> AddressComponents \<Rightarrow> AddressComponents" where
  "assignComponent c ac =
     (if indexOf (types c) ''postal_code'' \<ge> 0 then ac\<lparr>postalCode := namesOf c\<rparr>
      else if indexOf (types c) ''street_number'' \<ge> 0 then ac\<lparr>streetNumber := namesOf c\<rparr>
      else if indexOf (types c) ''route'' \<ge> 0 then ac\<lparr>streetName := namesOf c\<rparr>
      else if indexOf (types c) ''locality'' \<ge> 0 then ac\<lparr>city := namesOf c\<rparr>
      else if indexOf (types c) ''sublocality'' \<ge> 0 then ac\<lparr>district := namesOf c\<rparr>
      else if indexOf (types c) ''administrative_area_level_1'' \<ge> 0
      then ac\<lparr>stateOrProvince := namesOf c\<rparr>
      else if indexOf (types c) ''country'' \<ge> 0 then ac\<lparr>country := namesOf c\<rparr>
      else ac)"

text \<open>
  The loop \<^verbatim>\<open>for (let i = length - 1; i >= 0; i--)\<close>: \<open>componentsLoop cs k ac\<close> has
  the indices below \<open>k\<close> still to visit, the next one being \<open>k - 1\<close>.
\<close>

fun componentsLoop ::
  "address_component list \<Rightarrow> nat \<Rightarrow> AddressComponents \<Rightarrow> AddressComponents" where
  "componentsLoop cs 0 ac = ac"
| "componentsLoop cs (Suc i) ac = componentsLoop cs i (assignComponent (cs ! i) ac)"

definition nullNames :: names where
  "nullNames = \<lparr>longName = None, shortName = None\<rparr>"

definition emptyComponents :: AddressComponents where
  "emptyComponents =
     \<lparr>postalCode = nullNames, streetNumber = nullNames, streetName = nullNames,
      city = nullNames, district = nullNames, stateOrProvince = nullNames,
      country = nullNames, formattedAddress = None\<rparr>"

definition buildComponents :: "GeocoderResult \<Rightarrow> AddressComponents" where
  "buildComponents r =
     (componentsLoop (address_components r) (length (address_components r)) emptyComponents)
       \<lparr>formattedAddress := Some (formatted_address r)\<rparr>"

subsection \<open>Promises, the provider and timers\<close>

text \<open>
  A \<^verbatim>\<open>Geocoder\<close> object together with what its \<^verbatim>\<open>geocode\<close> calls leave in the event
  loop. Every call of \<^verbatim>\<open>geocode\<close> creates one promise; promises are numbered in the order
  of their creation. A request handed to the provider waits in \<open>inflight\<close> with the
  promise whose \<^verbatim>\<open>resolve\<close>/\<^verbatim>\<open>reject\<close> its callback closes over. A \<^verbatim>\<open>setTimeout\<close> waits
  in \<open>timers\<close> with its due time in milliseconds. \<open>requests\<close> logs the calls made to
  the provider, with their time.
\<close>

datatype LatLng = LatLng (lat: real) (lng: real)

type_synonym request = LatLng

datatype promise = Pending | Resolved "AddressComponents option" | Rejected GeocoderStatus

record Geocoder =
  stored_addressComponents :: "AddressComponents option"
  promises :: "promise list"
  inflight :: "(nat \<times> request) list"
  timers :: "(nat \<times> request) list"
  requests :: "(nat \<times> request) list"
  now :: nat

definition Geocoder_constructor :: Geocoder where
  "Geocoder_constructor =
     \<lparr>stored_addressComponents = None, promises = [], inflight = [], timers = [],
      requests = [], now = 0\<rparr>"

definition set_addressComponents :: "GeocoderResult list \<Rightarrow> Geocoder \<Rightarrow> error + Geocoder" where
  "set_addressComponents results g =
     (case results of
        [] \<Rightarrow> Inl TypeError
      | r # _ \<Rightarrow> Inr (g\<lparr>stored_addressComponents := Some (buildComponents r)\<rparr>))"

definition get_addressComponents :: "Geocoder \<Rightarrow> AddressComponents option" where
  "get_addressComponents g = stored_addressComponents g"

definition get_formattedAddress :: "Geocoder \<Rightarrow> string" where
  "get_formattedAddress g =
     (case get_addressComponents g of
        None \<Rightarrow> []
      | Some ac \<Rightarrow> (case formattedAddress ac of None \<Rightarrow> [] | Some a \<Rightarrow> a))"

text \<open>
  \<^verbatim>\<open>geocode(options)\<close>: a new promise is created and returned, and its executor hands
  the request and a callback to the provider.
\<close>

definition geocode :: "request \<Rightarrow> Geocoder \<Rightarrow> nat \<times> Geocoder" where
  "geocode opts g =
     (let p = length (promises g)
      in (p, g\<lparr>promises := promises g @ [Pending],
               inflight := inflight g @ [(p, opts)],
               requests := requests g @ [(now g, opts)]\<rparr>))"

text \<open>Settling a promise; one that is settled already stays as it is.\<close>

definition settle :: "nat \<Rightarrow> promise \<Rightarrow> Geocoder \<Rightarrow> Geocoder" where
  "settle p v g =
     (if p < length (promises g) \<and> promises g ! p = Pending
      then g\<lparr>promises := (promises g)[p := v]\<rparr> else g)"

text \<open>
  The callback given to the provider by the call that returned promise \<open>p\<close>. On
  \<^verbatim>\<open>OVER_QUERY_LIMIT\<close> it sets a timer of \<^verbatim>\<open>1e3\<close> milliseconds and returns; neither
  \<^verbatim>\<open>resolve\<close> nor \<^verbatim>\<open>reject\<close> of \<open>p\<close> is called or handed on.
\<close>

definition geocodeCallback ::
  "nat \<Rightarrow> request \<Rightarrow> GeocoderResult list \<Rightarrow> GeocoderStatus \<Rightarrow> Geocoder \<Rightarrow> Geocoder" where
  "geocodeCallback p opts results status g =
     (if status = OK \<and> length results > 0
      then (case set_addressComponents results g of
              Inl e \<Rightarrow> g
            | Inr g1 \<Rightarrow> settle p (Resolved (get_addressComponents g1)) g1)
      else if status = OVER_QUERY_LIMIT
      then g\<lparr>timers := timers g @ [(now g + 1000, opts)]\<rparr>
      else settle p (Rejected status) g)"

text \<open>
  The two things the event loop does with a geocoder. \<open>Respond p results status\<close>: the
  provider answers the request of promise \<open>p\<close> (nothing happens when no such request
  waits). \<open>Fire\<close>: the oldest timer comes due; its function calls \<^verbatim>\<open>self.geocode(options)\<close>
  and drops the promise that call returns.
\<close>

datatype event = Respond nat "GeocoderResult list" GeocoderStatus | Fire

fun step :: "event \<Rightarrow> Geocoder \<Rightarrow> Geocoder" where
  "step (Respond p results status) g =
     (case map_of (inflight g) p of
        None \<Rightarrow> g
      | Some opts \<Rightarrow>
          geocodeCallback p opts results status
            (g\<lparr>inflight := filter (\<lambda>q. fst q \<noteq> p) (inflight g)\<rparr>))"
| "step Fire g =
     (case timers g of
        [] \<Rightarrow> g
      | (due, opts) # rest \<Rightarrow>
          snd (geocode opts (g\<lparr>timers := rest, now := max (now g) due\<rparr>)))"

fun run :: "event list \<Rightarrow> Geocoder \<Rightarrow> Geocoder" where
  "run [] g = g"
| "run (e # es) g = run es (step e g)"

section \<open>Map\<close>

text \<open>
  The provider's objects, by the properties the module sets on them. A centre or position
  is whatever \<^verbatim>\<open>self.currentLocation\<close> held when it was passed, so it has the type of that
  getter's result. \<^verbatim>\<open>new google.maps.LatLng(latitude, longitude)\<close> is taken to hold the two
  numbers it is given, as the provider does for coordinates that are in range.
\<close>

record gmap =
  map_container :: "element option"
  map_center :: "LatLng option"
  map_zoom :: int
  map_mapTypeId :: string
  map_draggable :: bool

record gmarker =
  marker_position :: "LatLng option"
  marker_draggable :: bool

record gcircle =
  circle_center :: "LatLng option"
  circle_radius :: int

text \<open>
  The fields of a \<^verbatim>\<open>Map\<close> object. \<open>autocomplete\<close> holds the selector of the input the
  \<^verbatim>\<open>Autocomplete\<close> control and its \<^verbatim>\<open>place_changed\<close> listener were attached to,
  \<open>radiusListenerOn\<close> the selector of the element that got the \<^verbatim>\<open>change\<close> listener.
\<close>

record Map_obj =
  mapOptions :: "MapOptions option"
  isLoaded :: bool
  gMap :: "gmap option"
  geocoder :: "Geocoder option"
  marker :: "gmarker option"
  circle :: "gcircle option"
  autocomplete :: "string option"
  currentLocation :: "LatLng option"
  radiusListenerOn :: "string option"

definition Map_constructor :: Map_obj where
  "Map_constructor =
     \<lparr>mapOptions = None, isLoaded = False, gMap = None, geocoder = None, marker = None,
      circle = None, autocomplete = None, currentLocation = None, radiusListenerOn = None\<rparr>"

definition mapLoadedListener :: "Map_obj \<Rightarrow> Map_obj" where
  "mapLoadedListener w = w\<lparr>isLoaded := True\<rparr>"

text \<open>
  A method that may throw after it has changed the object returns the object as the throw
  left it, and the exception if there was one.
\<close>

type_synonym outcome = "Map_obj \<times> error option"

definition andThen :: "outcome \<Rightarrow> (Map_obj \<Rightarrow> outcome) \<Rightarrow> outcome" where
  "andThen r f = (case snd r of None \<Rightarrow> f (fst r) | Some e \<Rightarrow> r)"

text \<open>What a caller may pass for a location.\<close>

datatype jsLocation = LocUndefined | LocNull | LocObject location | LocLatLng LatLng

definition truthyLocation :: "jsLocation \<Rightarrow> bool" where
  "truthyLocation l = (case l of LocUndefined \<Rightarrow> False | LocNull \<Rightarrow> False | _ \<Rightarrow> True)"

text \<open>
  The setter of \<^verbatim>\<open>currentLocation\<close>. Anything that is not a \<^verbatim>\<open>LatLng\<close> has its
  \<^verbatim>\<open>latitude\<close> and \<^verbatim>\<open>longitude\<close> read, which throws on \<^verbatim>\<open>null\<close> and \<^verbatim>\<open>undefined\<close>.
\<close>

definition set_currentLocation :: "jsLocation \<Rightarrow> Map_obj \<Rightarrow> error + Map_obj" where
  "set_currentLocation l w =
     (case l of
        LocUndefined \<Rightarrow> Inl TypeError
      | LocNull \<Rightarrow> Inl TypeError
      | LocObject c \<Rightarrow> Inr (w\<lparr>currentLocation := Some (LatLng (latitude c) (longitude c))\<rparr>)
      | LocLatLng x \<Rightarrow> Inr (w\<lparr>currentLocation := Some x\<rparr>))"

text \<open>
  \<^verbatim>\<open>getZoom\<close> reads \<^verbatim>\<open>self.mapOptions.radiusInMeters\<close> at each comparison; within one
  call the document is the same, so the reads agree. \<open>zoomOfRadius\<close> is the number on
  the right of the assignment in the branch the comparisons select.

  Each branch is an assignment \<^verbatim>\<open>zoom = n\<close> to a name that is declared nowhere, neither in
  \<^verbatim>\<open>getZoom\<close> nor in the module. The body of a class is strict code, where an assignment
  to a name with no binding throws a \<^verbatim>\<open>ReferenceError\<close> and creates no global; the module
  is taken to run on a page that defines no global \<^verbatim>\<open>zoom\<close> of its own. \<open>assignZoom\<close> is
  that assignment, and \<^verbatim>\<open>return zoom\<close> is never reached.
\<close>

definition kilometersToMeters :: "int \<Rightarrow> int" where
  "kilometersToMeters km = km * 1000"

definition zoomOfRadius :: "int \<Rightarrow> int" where
  "zoomOfRadius r =
     (if r \<le> kilometersToMeters 10 then 11
      else if r \<le> kilometersToMeters 20 then 10
      else if r \<le> kilometersToMeters 40 then 9
      else if r \<le> kilometersToMeters 75 then 8
      else if r \<le> kilometersToMeters 100 then 7
      else if r \<le> kilometersToMeters 200 then 6
      else 4)"

definition assignZoom :: "int \<Rightarrow> error + int" where
  "assignZoom n = Inl ReferenceError"

definition getZoom :: "document \<Rightarrow> Map_obj \<Rightarrow> error + int" where
  "getZoom d w =
     (case mapOptions w of
        None \<Rightarrow> Inl TypeError
      | Some m \<Rightarrow>
          (case radiusInMeters d m of
             Inl e \<Rightarrow> Inl e
           | Inr r \<Rightarrow> assignZoom (zoomOfRadius r)))"

subsection \<open>create\<close>

definition addCircle :: "document \<Rightarrow> Map_obj \<Rightarrow> outcome" where
  "addCircle d w =
     (case mapOptions w of
        None \<Rightarrow> (w, Some TypeError)
      | Some m \<Rightarrow>
          (case radiusInMeters d m of
             Inl e \<Rightarrow> (w, Some e)
           | Inr r \<Rightarrow>
               (w\<lparr>circle := Some \<lparr>circle_center = currentLocation w, circle_radius = r\<rparr>\<rparr>,
                None)))"

definition setupAutocompleteListener :: "document \<Rightarrow> Map_obj \<Rightarrow> outcome" where
  "setupAutocompleteListener d w =
     (case mapOptions w of
        None \<Rightarrow> (w, Some TypeError)
      | Some m \<Rightarrow>
          (case get_autocomplete d m of
             Inl e \<Rightarrow> (w, Some e)
           | Inr a \<Rightarrow> if a = [] then (w, None) else (w\<lparr>autocomplete := Some a\<rparr>, None)))"

definition registerRadiusInputListener :: "document \<Rightarrow> Map_obj \<Rightarrow> outcome" where
  "registerRadiusInputListener d w =
     (case mapOptions w of
        None \<Rightarrow> (w, Some TypeError)
      | Some m \<Rightarrow>
          (case get_radius d m of
             Inl e \<Rightarrow> (w, Some e)
           | Inr None \<Rightarrow> (w, None)
           | Inr (Some sel) \<Rightarrow>
               if sel = [] then (w, None)
               else (case querySelector d sel of
                       None \<Rightarrow> (w, Some TypeError)
                     | Some el \<Rightarrow> (w\<lparr>radiusListenerOn := Some sel\<rparr>, None))))"

definition createMap :: "document \<Rightarrow> Map_obj \<Rightarrow> outcome" where
  "createMap d w =
     (case mapOptions w of
        None \<Rightarrow> (w, Some TypeError)
      | Some m \<Rightarrow>
          (case get_map m of
             Inl e \<Rightarrow> (w, Some e)
           | Inr sel \<Rightarrow>
               (case getZoom d w of
                  Inl e \<Rightarrow> (w, Some e)
                | Inr z \<Rightarrow>
                    (let w1 = w\<lparr>gMap := Some
                           \<lparr>map_container = (case sel of None \<Rightarrow> None | Some s \<Rightarrow> querySelector d s),
                            map_center = currentLocation w,
                            map_zoom = (if z \<noteq> 0 then z else get_zoom m),
                            map_mapTypeId = get_mapType m,
                            map_draggable = False\<rparr>\<rparr>;
                         w2 = w1\<lparr>marker := Some
                           \<lparr>marker_position = currentLocation w1, marker_draggable = False\<rparr>\<rparr>;
                         w3 = w2\<lparr>geocoder := Some Geocoder_constructor\<rparr>
                     in andThen (andThen (addCircle d w3) (setupAutocompleteListener d))
                          (registerRadiusInputListener d)))))"

text \<open>
  What the device's geolocation does for \<^verbatim>\<open>getUsersLocation\<close>: \<^verbatim>\<open>navigator.geolocation\<close>
  is missing, or \<^verbatim>\<open>getCurrentPosition\<close> calls the error callback, or it calls the success
  callback with a position. The callback is run as part of \<open>create\<close>, and what it throws
  is reported as thrown by \<open>create\<close>.
\<close>

datatype geolocation = NoGeolocation | PositionError | Position real real

definition getLocationError :: "document \<Rightarrow> Map_obj \<Rightarrow> outcome" where
  "getLocationError d w =
     (case set_currentLocation
             (LocObject \<lparr>latitude = 5.6044018, longitude = - 0.12188990000000001\<rparr>) w of
        Inl e \<Rightarrow> (w, Some e)
      | Inr w1 \<Rightarrow> createMap d w1)"

definition geoLocationSuccess :: "document \<Rightarrow> real \<Rightarrow> real \<Rightarrow> Map_obj \<Rightarrow> outcome" where
  "geoLocationSuccess d la lo w =
     (case set_currentLocation (LocObject \<lparr>latitude = la, longitude = lo\<rparr>) w of
        Inl e \<Rightarrow> (w, Some e)
      | Inr w1 \<Rightarrow> createMap d w1)"

definition getUsersLocation :: "document \<Rightarrow> geolocation \<Rightarrow> Map_obj \<Rightarrow> outcome" where
  "getUsersLocation d geo w =
     (case geo of
        NoGeolocation \<Rightarrow> getLocationError d w
      | PositionError \<Rightarrow> getLocationError d w
      | Position la lo \<Rightarrow> geoLocationSuccess d la lo w)"

definition set_mapOptions :: "document \<Rightarrow> options \<Rightarrow> Map_obj \<Rightarrow> error + Map_obj" where
  "set_mapOptions d opts w =
     (case MapOptions_constructor d opts of
        Inl e \<Rightarrow> Inl e
      | Inr m \<Rightarrow> Inr (w\<lparr>mapOptions := Some m\<rparr>))"

definition create :: "document \<Rightarrow> geolocation \<Rightarrow> options \<Rightarrow> Map_obj \<Rightarrow> outcome" where
  "create d geo opts w =
     (case set_mapOptions d opts w of
        Inl e \<Rightarrow> (w, Some e)
      | Inr w1 \<Rightarrow>
          if \<not> isLoaded w1 then (w1, Some (Error ''Map library not loaded!''))
          else (case mapOptions w1 of
                  None \<Rightarrow> (w1, Some (Error ''Map options not set!''))
                | Some m \<Rightarrow>
                    if \<not> truthy (hasLocation m) then getUsersLocation d geo w1
                    else (case set_currentLocation
                                 (case get_location m of None \<Rightarrow> LocNull | Some l \<Rightarrow> LocObject l)
                                 w1 of
                            Inl e \<Rightarrow> (w1, Some e)
                          | Inr w2 \<Rightarrow> createMap d w2)))"

subsection \<open>The radius listener and updateLocation\<close>



definition updateLocation :: "jsLocation \<Rightarrow> Map_obj \<Rightarrow> outcome" where
  "updateLocation l w =
     (case set_currentLocation l w of
        Inl e \<Rightarrow> (w, Some e)
      | Inr w1 \<Rightarrow>
          if truthyLocation l
          then (case gMap w1 of
                  None \<Rightarrow> (w1, Some TypeError)
                | Some g \<Rightarrow>
                    (let w2 = w1\<lparr>gMap := Some (g\<lparr>map_center := currentLocation w1\<rparr>)\<rparr>;
                         w3 = (case marker w2 of
                                 None \<Rightarrow> w2
                               | Some k \<Rightarrow>
                                   w2\<lparr>marker := Some (k\<lparr>marker_position := currentLocation w2\<rparr>)\<rparr>);
                         w4 = (case circle w3 of
                                 None \<Rightarrow> w3
                               | Some c \<Rightarrow>
                                   w3\<lparr>circle := Some (c\<lparr>circle_center := currentLocation w3\<rparr>)\<rparr>)
                     in (w4, None)))
          else (w1, None))"

section \<open>Notions used in the statements\<close>

text \<open>
  A binding of the options resolves in a document: the options have \<^verbatim>\<open>selectors\<close>, the
  selector is given and the document has its element.
\<close>

definition bindingResolves :: "document \<Rightarrow> options \<Rightarrow> (selectors \<Rightarrow> string option) \<Rightarrow> bool" where
  "bindingResolves d opts f =
     (case selectors opts of None \<Rightarrow> False | Some s \<Rightarrow> resolvable d (f s))"

text \<open>
  The specification's reading of a slot, in its own words: the names of the first
  component, in list order, whose type tags include the slot's tag; \<^verbatim>\<open>null\<close> names when
  there is none. It is compared with what the setter computes.
\<close>

definition specSlot :: "string \<Rightarrow> address_component list \<Rightarrow> names" where
  "specSlot t cs =
     (case find (\<lambda>c. t \<in> set (types c)) cs of None \<Rightarrow> nullNames | Some c \<Rightarrow> namesOf c)"

text \<open>
  The tags the setter tests, in the order of its \<^verbatim>\<open>else if\<close> chain. The category of a
  component is the first of them among its type tags, and \<open>firstOfCategory t cs\<close> has the
  names of the first component of \<open>cs\<close> that is of category \<open>t\<close>.
\<close>

definition categories :: "string list" where
  "categories =
     [''postal_code'', ''street_number'', ''route'', ''locality'', ''sublocality'',
      ''administrative_area_level_1'', ''country'']"

definition categoryOf :: "address_component \<Rightarrow> string option" where
  "categoryOf c = find (\<lambda>t. t \<in> set (types c)) categories"

definition firstOfCategory :: "string \<Rightarrow> address_component list \<Rightarrow> names" where
  "firstOfCategory t cs =
     (case find (\<lambda>c. categoryOf c = Some t) cs of None \<Rightarrow> nullNames | Some c \<Rightarrow> namesOf c)"

text \<open>The coordinate \<^verbatim>\<open>getLocationError\<close> falls back to, as a \<^verbatim>\<open>LatLng\<close>.\<close>

definition defaultCentre :: LatLng where
  "defaultCentre = LatLng 5.6044018 (- 0.12188990000000001)"

subsection \<open>Concrete inputs\<close>

text \<open>
  Documents: one with the map container only, one with a radius input of a given value as
  well, one with the address and country inputs.
\<close>

definition mapOnly :: document where
  "mapOnly = (\<lambda>s. if s = ''#map'' then Some \<lparr>elem_value = []\<rparr> else None)"

definition withRadius :: "string \<Rightarrow> document" where
  "withRadius v =
     (\<lambda>s. if s = ''#map'' then Some \<lparr>elem_value = []\<rparr>
          else if s = ''#radius'' then Some \<lparr>elem_value = v\<rparr> else None)"

definition countryScoped :: document where
  "countryScoped =
     (\<lambda>s. if s = ''#map'' \<or> s = ''#address'' \<or> s = ''#country''
          then Some \<lparr>elem_value = []\<rparr> else None)"

definition noAddress :: document where
  "noAddress =
     (\<lambda>s. if s = ''#map'' \<or> s = ''#country'' then Some \<lparr>elem_value = []\<rparr> else None)"

definition emptyDocument :: document where
  "emptyDocument = (\<lambda>s. None)"

definition plainOptions :: options where
  "plainOptions =
     \<lparr>selectors = Some \<lparr>sel_map = Some ''#map'', sel_autocomplete = None,
        sel_radius = Some ''#radius'', sel_country = None\<rparr>,
      opt_location = None, opt_zoom = None, opt_mapType = None\<rparr>"

definition countryOptions :: options where
  "countryOptions =
     \<lparr>selectors = Some \<lparr>sel_map = Some ''#map'', sel_autocomplete = Some ''#address'',
        sel_radius = None, sel_country = Some ''#country''\<rparr>,
      opt_location = None, opt_zoom = None, opt_mapType = None\<rparr>"

definition locatedOptions :: "real \<Rightarrow> real \<Rightarrow> options" where
  "locatedOptions la lo =
     plainOptions\<lparr>opt_location := Some \<lparr>latitude = la, longitude = lo\<rparr>\<rparr>"

definition loadedMap :: Map_obj where
  "loadedMap = mapLoadedListener Map_constructor"

text \<open>
  A widget given field by field: its options, a map at zoom 6, a marker, a geocoder and a
  circle of radius 150000, all at the default centre, and a radius listener. These are the
  values the fields would hold had \<^verbatim>\<open>createMap\<close> run to its end on a document whose radius
  input reads 150000; \<^verbatim>\<open>create\<close> does not get there.
\<close>

definition shownMap :: Map_obj where
  "shownMap =
     \<lparr>mapOptions = Some (MapOptions plainOptions), isLoaded = True,
      gMap = Some \<lparr>map_container = Some \<lparr>elem_value = []\<rparr>, map_center = Some defaultCentre,
        map_zoom = 6, map_mapTypeId = ''hybrid'', map_draggable = False\<rparr>,
      geocoder = Some Geocoder_constructor,
      marker = Some \<lparr>marker_position = Some defaultCentre, marker_draggable = False\<rparr>,
      circle = Some \<lparr>circle_center = Some defaultCentre, circle_radius = 150000\<rparr>,
      autocomplete = None, currentLocation = Some defaultCentre,
      radiusListenerOn = Some ''#radius''\<rparr>"

text \<open>
  A result whose only component carries two of the tested tags, and a result with one
  component of one tag.
\<close>

definition cityState :: GeocoderResult where
  "cityState =
     \<lparr>address_components =
        [\<lparr>long_name = ''City State'', short_name = ''CS'',
          types = [''locality'', ''country'', ''political'']\<rparr>],
      formatted_address = ''City State''\<rparr>"

definition oneResult :: GeocoderResult where
  "oneResult =
     \<lparr>address_components =
        [\<lparr>long_name = ''Ghana'', short_name = ''GH'', types = [''country'', ''political'']\<rparr>],
      formatted_address = ''Accra, Ghana''\<rparr>"

definition accra :: LatLng where
  "accra = LatLng 5.6 (- 0.12)"

text \<open>
  One call \<^verbatim>\<open>geocode({location: accra})\<close> on a new geocoder, answered with
  \<^verbatim>\<open>OVER_QUERY_LIMIT\<close>; the timer comes due; the provider answers the retry with
  \<^verbatim>\<open>OK\<close> and one result.
\<close>

definition retried :: Geocoder where
  "retried =
     run [Respond 0 [] OVER_QUERY_LIMIT, Fire, Respond 1 [oneResult] OK]
       (snd (geocode accra Geocoder_constructor))"

section \<open>Evaluating the concrete inputs\<close>

lemmas inputs =
  mapOnly_def withRadius_def countryScoped_def noAddress_def emptyDocument_def plainOptions_def
  countryOptions_def locatedOptions_def

lemmas parseInt_defs =
  parseInt_def stripSign_def stripPrefix_def isWhiteSpace_def digitValue_def

lemma parseInt_examples:
  "parseInt ''0'' = Some 0"
  "parseInt ''30000'' = Some 30000"
  "parseInt ''75000'' = Some 75000"
  "parseInt ''150000'' = Some 150000"
  "parseInt ''abc'' = None"
  by (simp_all add: parseInt_defs)

lemma plainOptions_valid:
  "MapOptions_constructor mapOnly plainOptions = Inr (MapOptions plainOptions)"
  "MapOptions_constructor (withRadius v) plainOptions = Inr (MapOptions plainOptions)"
  by (simp_all add: MapOptions_constructor_def inputs resolvable_def querySelector_def)

lemma loadedMap_loaded: "isLoaded loadedMap"
  by (simp add: loadedMap_def mapLoadedListener_def)

lemma plainOptions_no_location: "\<not> truthy (hasLocation (MapOptions plainOptions))"
  by (simp add: hasLocation_def truthy_def inputs)

section \<open>MapOptions\<close>

text \<open>
  Claim C4. The constructor throws its first error when the map binding does not resolve
  (absent \<^verbatim>\<open>selectors\<close>, absent or empty selector, or no element for it). With a country
  binding that resolves and an autocomplete binding that does not, it throws: the second
  error when the map binding resolves, the first otherwise. With the map binding, the
  country binding and the autocomplete binding all resolving, it returns the options object
  wrapped. The specification's \<^verbatim>\<open>ConfigError\<close> is the \<^verbatim>\<open>Error\<close> thrown here; the last case
  is read with the map binding present, as the first case requires.
\<close>

theorem MapOptions_constructor_validates:
  "(\<not> bindingResolves d opts sel_map \<longrightarrow>
      MapOptions_constructor d opts = Inl (Error ''Map element selector is required!''))
   \<and> (bindingResolves d opts sel_country \<and> \<not> bindingResolves d opts sel_autocomplete \<longrightarrow>
      (\<exists>msg. MapOptions_constructor d opts = Inl (Error msg)))
   \<and> (bindingResolves d opts sel_map \<and> bindingResolves d opts sel_country
        \<and> \<not> bindingResolves d opts sel_autocomplete \<longrightarrow>
      MapOptions_constructor d opts = Inl (Error
        ''Autocomplete input selector is required to scope autocomplete results by country!''))
   \<and> (bindingResolves d opts sel_map \<and> bindingResolves d opts sel_country
        \<and> bindingResolves d opts sel_autocomplete \<longrightarrow>
      MapOptions_constructor d opts = Inr (MapOptions opts))"
  by (auto simp: bindingResolves_def MapOptions_constructor_def split: option.splits)

text \<open>
  The three cases on concrete input: no element for the map selector; map and country
  inputs but no address input; map, country and address inputs.
\<close>

theorem MapOptions_constructor_validates_witness:
  "\<not> bindingResolves emptyDocument plainOptions sel_map
   \<and> MapOptions_constructor emptyDocument plainOptions =
       Inl (Error ''Map element selector is required!'')
   \<and> bindingResolves noAddress countryOptions sel_map
   \<and> bindingResolves noAddress countryOptions sel_country
   \<and> \<not> bindingResolves noAddress countryOptions sel_autocomplete
   \<and> MapOptions_constructor noAddress countryOptions = Inl (Error
        ''Autocomplete input selector is required to scope autocomplete results by country!'')
   \<and> bindingResolves countryScoped countryOptions sel_map
   \<and> bindingResolves countryScoped countryOptions sel_country
   \<and> bindingResolves countryScoped countryOptions sel_autocomplete
   \<and> MapOptions_constructor countryScoped countryOptions = Inr (MapOptions countryOptions)"
proof -
  have a: "\<not> bindingResolves emptyDocument plainOptions sel_map"
    by (simp add: bindingResolves_def resolvable_def querySelector_def inputs)
  have b: "bindingResolves noAddress countryOptions sel_map"
    "bindingResolves noAddress countryOptions sel_country"
    "\<not> bindingResolves noAddress countryOptions sel_autocomplete"
    by (simp_all add: bindingResolves_def resolvable_def querySelector_def inputs)
  have c: "bindingResolves countryScoped countryOptions sel_map"
    "bindingResolves countryScoped countryOptions sel_country"
    "bindingResolves countryScoped countryOptions sel_autocomplete"
    by (simp_all add: bindingResolves_def resolvable_def querySelector_def inputs)
  from a b c
    MapOptions_constructor_validates [of emptyDocument plainOptions]
    MapOptions_constructor_validates [of noAddress countryOptions]
    MapOptions_constructor_validates [of countryScoped countryOptions]
  show ?thesis by simp
qed

text \<open>
  Read as its caller reads it, the value of \<^verbatim>\<open>hasLocation\<close> is falsy when the options have
  no location and when the latitude or the longitude is 0, and truthy when both are nonzero.
\<close>

lemma hasLocation_truthy:
  "truthy (hasLocation (MapOptions opts)) =
     (case opt_location opts of
        None \<Rightarrow> False
      | Some l \<Rightarrow> latitude l \<noteq> 0 \<and> longitude l \<noteq> 0)"
  by (simp add: hasLocation_def truthy_def split: option.splits)

text \<open>
  Claim C8, on the inputs it names. The claim, like the comment on the method, has
  \<^verbatim>\<open>hasLocation\<close> return true for the location \<open>{5.6, -0.12}\<close> and false for \<open>{0, 0}\<close> and
  for no location. The method returns the longitude -0.12, the latitude 0 and
  \<^verbatim>\<open>undefined\<close>; on no options at all does it return a boolean.
\<close>

theorem hasLocation_returns_no_boolean:
  "hasLocation (MapOptions (locatedOptions 5.6 (- 0.12))) = JNumber (- 0.12)
   \<and> hasLocation (MapOptions (locatedOptions 5.6 (- 0.12))) \<noteq> JBoolean True
   \<and> hasLocation (MapOptions (locatedOptions 0 0)) = JNumber 0
   \<and> hasLocation (MapOptions (locatedOptions 0 0)) \<noteq> JBoolean False
   \<and> hasLocation (MapOptions plainOptions) = JUndefined
   \<and> hasLocation (MapOptions plainOptions) \<noteq> JBoolean False
   \<and> hasLocation m \<noteq> JBoolean b"
proof -
  have a: "hasLocation (MapOptions (locatedOptions 5.6 (- 0.12))) = JNumber (- 0.12)"
    by (simp add: hasLocation_def truthy_def inputs)
  have b: "hasLocation (MapOptions (locatedOptions 0 0)) = JNumber 0"
    by (simp add: hasLocation_def truthy_def inputs)
  have c: "hasLocation (MapOptions plainOptions) = JUndefined"
    by (simp add: hasLocation_def inputs)
  have d: "hasLocation m \<noteq> JBoolean b"
    by (simp add: hasLocation_def split: option.splits)
  from a b c d show ?thesis
    by simp
qed

text \<open>
  On options that passed the constructor, whatever the document is by now,
  \<^verbatim>\<open>radiusInMeters\<close> does not throw, and its value is not 0.
\<close>

lemma radiusInMeters_total:
  assumes "selectors (the_options m) \<noteq> None"
  shows "\<exists>r. radiusInMeters d m = Inr r \<and> r \<noteq> 0"
  using assms
  by (auto simp: radiusInMeters_def get_radius_def resolvable_def split: option.splits)

lemma constructed_selectors:
  assumes "MapOptions_constructor d opts = Inr m"
  shows "m = MapOptions opts \<and> selectors (the_options m) \<noteq> None"
  using assms
  by (auto simp: MapOptions_constructor_def split: option.splits if_splits)

text \<open>
  Claim C9. With a radius binding that resolves and whose element's value parses to 0,
  \<^verbatim>\<open>radiusInMeters\<close> is the default 5000: the default stands in for every falsy result of
  \<^verbatim>\<open>parseInt\<close>, 0 as well as \<^verbatim>\<open>NaN\<close>.
\<close>

theorem radiusInMeters_zero_is_default:
  "get_radius d m = Inr (Some sel) \<Longrightarrow> querySelector d sel = Some el \<Longrightarrow>
   parseInt (elem_value el) = Some 0 \<Longrightarrow> radiusInMeters d m = Inr 5000"
  by (simp add: radiusInMeters_def)

text \<open>The radius input holding the string \<^verbatim>\<open>"0"\<close>.\<close>

theorem radiusInMeters_zero_is_default_witness:
  "get_radius (withRadius ''0'') (MapOptions plainOptions) = Inr (Some ''#radius'')
   \<and> querySelector (withRadius ''0'') ''#radius'' = Some \<lparr>elem_value = ''0''\<rparr>
   \<and> parseInt (elem_value \<lparr>elem_value = ''0''\<rparr>) = Some 0
   \<and> radiusInMeters (withRadius ''0'') (MapOptions plainOptions) = Inr 5000"
proof -
  have a: "get_radius (withRadius ''0'') (MapOptions plainOptions) = Inr (Some ''#radius'')"
    by (simp add: inputs get_radius_def resolvable_def querySelector_def)
  have b: "querySelector (withRadius ''0'') ''#radius'' = Some \<lparr>elem_value = ''0''\<rparr>"
    by (simp add: inputs querySelector_def)
  have c: "parseInt (elem_value \<lparr>elem_value = ''0''\<rparr>) = Some 0"
    by (simp add: parseInt_examples)
  from radiusInMeters_zero_is_default [OF a b c] a b c show ?thesis by simp
qed

section \<open>The zoom level\<close>

lemma radiusInMeters_withRadius:
  "parseInt v = Some n \<Longrightarrow> n \<noteq> 0 \<Longrightarrow>
   radiusInMeters (withRadius v) (MapOptions plainOptions) = Inr n"
  by (simp add: radiusInMeters_def get_radius_def resolvable_def querySelector_def inputs)

text \<open>
  The numbers the branches of \<^verbatim>\<open>getZoom\<close> try to assign are the levels the specification
  gives: they do not increase with the radius, the radii 10000, 20000, 40000, 75000, 100000
  and 200000 select 11, 10, 9, 8, 7 and 6, and every radius above 200000 selects 4.
\<close>

lemma zoomOfRadius_steps:
  "(r1 \<le> r2 \<longrightarrow> zoomOfRadius r2 \<le> zoomOfRadius r1)
   \<and> zoomOfRadius 10000 = 11 \<and> zoomOfRadius 20000 = 10 \<and> zoomOfRadius 40000 = 9
   \<and> zoomOfRadius 75000 = 8 \<and> zoomOfRadius 100000 = 7 \<and> zoomOfRadius 200000 = 6
   \<and> (200000 < r \<longrightarrow> zoomOfRadius r = 4)"
  by (simp add: zoomOfRadius_def kilometersToMeters_def)

text \<open>Once the radius is read, the assignment of the selected branch throws.\<close>

lemma getZoom_ReferenceError:
  "mapOptions w = Some m \<Longrightarrow> radiusInMeters d m = Inr r \<Longrightarrow> getZoom d w = Inl ReferenceError"
  by (simp add: getZoom_def assignZoom_def)

text \<open>
  Claim C3, at the radius 10000 and in general. With the radius input reading 10000 the
  first comparison of \<^verbatim>\<open>getZoom\<close> holds and its branch would assign 11, the level the claim
  gives; the assignment throws a \<^verbatim>\<open>ReferenceError\<close>. On no widget and no document does
  \<^verbatim>\<open>getZoom\<close> return a level.
\<close>

theorem getZoom_returns_no_level:
  "radiusInMeters (withRadius ''10000'') (MapOptions plainOptions) = Inr 10000
   \<and> zoomOfRadius 10000 = 11
   \<and> getZoom (withRadius ''10000'') shownMap = Inl ReferenceError
   \<and> getZoom d w \<noteq> Inr z"
proof -
  have a: "radiusInMeters (withRadius ''10000'') (MapOptions plainOptions) = Inr 10000"
    by (rule radiusInMeters_withRadius) (simp_all add: parseInt_defs)
  have b: "zoomOfRadius 10000 = 11"
    by (simp add: zoomOfRadius_def kilometersToMeters_def)
  have "mapOptions shownMap = Some (MapOptions plainOptions)"
    by (simp add: shownMap_def)
  from getZoom_ReferenceError [OF this a]
  have c: "getZoom (withRadius ''10000'') shownMap = Inl ReferenceError" .
  have d: "getZoom d w \<noteq> Inr z"
    by (simp add: getZoom_def assignZoom_def split: option.splits sum.splits)
  from a b c d show ?thesis
    by simp
qed

section \<open>create\<close>

text \<open>
  On options that pass the constructor, \<^verbatim>\<open>createMap\<close> throws while it builds the options
  of the provider's map, at \<^verbatim>\<open>zoom: self.getZoom()\<close>: nothing is assigned, and the widget
  is as it was.
\<close>

lemma createMap_throws:
  assumes "mapOptions w = Some m" and "selectors (the_options m) \<noteq> None"
  shows "createMap d w = (w, Some ReferenceError)"
proof -
  from assms(2) obtain s where s: "selectors (the_options m) = Some s"
    by auto
  from radiusInMeters_total [OF assms(2)]
  obtain r where r: "radiusInMeters d m = Inr r"
    by blast
  from getZoom_ReferenceError [OF assms(1) r] assms(1) s show ?thesis
    by (simp add: createMap_def get_map_def)
qed

text \<open>
  So \<^verbatim>\<open>create\<close>, on options that pass the constructor and with the library loaded, throws
  on every path, after it has stored the options and a current location.
\<close>

lemma create_throws:
  assumes "MapOptions_constructor d opts = Inr m" and "isLoaded w"
  shows "\<exists>x. create d geo opts w =
     (w\<lparr>mapOptions := Some m, currentLocation := Some x\<rparr>, Some ReferenceError)"
proof -
  note sel = constructed_selectors [OF assms(1), THEN conjunct2]
  have thrown: "createMap d (w\<lparr>mapOptions := Some m, currentLocation := Some x\<rparr>) =
      (w\<lparr>mapOptions := Some m, currentLocation := Some x\<rparr>, Some ReferenceError)" for x
    by (rule createMap_throws [OF _ sel]) simp
  show ?thesis
  proof (cases "truthy (hasLocation m)")
    case True
    then obtain l where "opt_location (the_options m) = Some l"
      by (auto simp: hasLocation_def truthy_def split: option.splits)
    with True assms thrown show ?thesis
      by (auto simp: create_def set_mapOptions_def get_location_def set_currentLocation_def)
  next
    case False
    with assms thrown show ?thesis
      by (cases geo)
        (auto simp: create_def set_mapOptions_def getUsersLocation_def
          getLocationError_def geoLocationSuccess_def set_currentLocation_def)
  qed
qed

text \<open>
  Claim C5, on options with a map selector and no location, a document with the map
  container and the library loaded. With geolocation missing, and with geolocation
  reporting an error, \<^verbatim>\<open>create\<close> stores the options and sets the current location to
  latitude 5.6044018, longitude -0.12188990000000001, and then throws a \<^verbatim>\<open>ReferenceError\<close>
  in \<^verbatim>\<open>createMap\<close>. No map, marker or circle exists afterwards. The claim has \<^verbatim>\<open>create\<close>
  complete and the map rendered at the default coordinate.
\<close>

theorem create_throws_before_rendering:
  "create mapOnly NoGeolocation plainOptions loadedMap =
     (loadedMap\<lparr>mapOptions := Some (MapOptions plainOptions),
        currentLocation := Some (LatLng 5.6044018 (- 0.12188990000000001))\<rparr>,
      Some ReferenceError)
   \<and> create mapOnly PositionError plainOptions loadedMap =
     (loadedMap\<lparr>mapOptions := Some (MapOptions plainOptions),
        currentLocation := Some (LatLng 5.6044018 (- 0.12188990000000001))\<rparr>,
      Some ReferenceError)
   \<and> gMap (fst (create mapOnly NoGeolocation plainOptions loadedMap)) = None
   \<and> marker (fst (create mapOnly NoGeolocation plainOptions loadedMap)) = None
   \<and> circle (fst (create mapOnly NoGeolocation plainOptions loadedMap)) = None"
proof -
  let ?w = "loadedMap\<lparr>mapOptions := Some (MapOptions plainOptions),
      currentLocation := Some (LatLng 5.6044018 (- 0.12188990000000001))\<rparr>"
  have sel: "selectors (the_options (MapOptions plainOptions)) \<noteq> None"
    by (simp add: inputs)
  have "createMap mapOnly ?w = (?w, Some ReferenceError)"
    by (rule createMap_throws [OF _ sel]) simp
  then have e: "create mapOnly geo plainOptions loadedMap = (?w, Some ReferenceError)"
    if "geo = NoGeolocation \<or> geo = PositionError" for geo
    using that
    by (auto simp: create_def set_mapOptions_def plainOptions_valid loadedMap_loaded
        plainOptions_no_location getUsersLocation_def getLocationError_def
        set_currentLocation_def)
  have n: "gMap ?w = None" "marker ?w = None" "circle ?w = None"
    by (simp_all add: loadedMap_def mapLoadedListener_def Map_constructor_def)
  from e [of NoGeolocation] e [of PositionError] n show ?thesis
    by simp
qed

section \<open>The radius listener\<close>



section \<open>updateLocation\<close>

text \<open>
  Claim C6. A second \<^verbatim>\<open>updateLocation\<close> with the same argument leaves the widget as the
  first left it, with the same outcome, so the centres of the map, the marker and the
  circle are those of one call. For a coordinate \<open>c\<close> on a widget that has its map, marker
  and circle, one call returns without an exception and puts all three, and the current
  location, at \<open>c\<close>.
\<close>

theorem updateLocation_idempotent:
  "updateLocation l (fst (updateLocation l w)) = updateLocation l w
   \<and> (gMap w = Some g \<and> marker w = Some k \<and> circle w = Some c \<longrightarrow>
        updateLocation (LocObject x) w =
          (w\<lparr>currentLocation := Some (LatLng (latitude x) (longitude x)),
             gMap := Some (g\<lparr>map_center := Some (LatLng (latitude x) (longitude x))\<rparr>),
             marker := Some (k\<lparr>marker_position := Some (LatLng (latitude x) (longitude x))\<rparr>),
             circle := Some (c\<lparr>circle_center := Some (LatLng (latitude x) (longitude x))\<rparr>)\<rparr>,
           None))"
proof
  show "updateLocation l (fst (updateLocation l w)) = updateLocation l w"
    by (cases l)
      (auto simp: updateLocation_def set_currentLocation_def truthyLocation_def Let_def
        split: option.splits)
next
  show "gMap w = Some g \<and> marker w = Some k \<and> circle w = Some c \<longrightarrow>
        updateLocation (LocObject x) w =
          (w\<lparr>currentLocation := Some (LatLng (latitude x) (longitude x)),
             gMap := Some (g\<lparr>map_center := Some (LatLng (latitude x) (longitude x))\<rparr>),
             marker := Some (k\<lparr>marker_position := Some (LatLng (latitude x) (longitude x))\<rparr>),
             circle := Some (c\<lparr>circle_center := Some (LatLng (latitude x) (longitude x))\<rparr>)\<rparr>,
           None)"
    by (simp add: updateLocation_def set_currentLocation_def truthyLocation_def Let_def)
qed

text \<open>
  The widget \<open>shownMap\<close>, which has a map, a marker and a circle at the default centre,
  moved to the coordinate \<open>{1, 1}\<close> once and twice.
\<close>

theorem updateLocation_idempotent_witness:
  "map_option map_center (gMap shownMap) = Some (Some defaultCentre)
   \<and> map_option marker_position (marker shownMap) = Some (Some defaultCentre)
   \<and> map_option circle_center (circle shownMap) = Some (Some defaultCentre)
   \<and> updateLocation (LocObject \<lparr>latitude = 1, longitude = 1\<rparr>)
        (fst (updateLocation (LocObject \<lparr>latitude = 1, longitude = 1\<rparr>) shownMap))
      = updateLocation (LocObject \<lparr>latitude = 1, longitude = 1\<rparr>) shownMap
   \<and> snd (updateLocation (LocObject \<lparr>latitude = 1, longitude = 1\<rparr>) shownMap) = None
   \<and> map_option map_center
        (gMap (fst (updateLocation (LocObject \<lparr>latitude = 1, longitude = 1\<rparr>) shownMap)))
      = Some (Some (LatLng 1 1))
   \<and> map_option marker_position
        (marker (fst (updateLocation (LocObject \<lparr>latitude = 1, longitude = 1\<rparr>) shownMap)))
      = Some (Some (LatLng 1 1))
   \<and> map_option circle_center
        (circle (fst (updateLocation (LocObject \<lparr>latitude = 1, longitude = 1\<rparr>) shownMap)))
      = Some (Some (LatLng 1 1))"
proof -
  have g: "gMap shownMap = Some \<lparr>map_container = Some \<lparr>elem_value = []\<rparr>,
      map_center = Some defaultCentre, map_zoom = 6, map_mapTypeId = ''hybrid'',
      map_draggable = False\<rparr>"
    by (simp add: shownMap_def)
  have k: "marker shownMap = Some \<lparr>marker_position = Some defaultCentre, marker_draggable = False\<rparr>"
    by (simp add: shownMap_def)
  have c: "circle shownMap = Some \<lparr>circle_center = Some defaultCentre, circle_radius = 150000\<rparr>"
    by (simp add: shownMap_def)
  note twice = updateLocation_idempotent
    [of "LocObject \<lparr>latitude = 1, longitude = 1\<rparr>" shownMap
      "\<lparr>map_container = Some \<lparr>elem_value = []\<rparr>, map_center = Some defaultCentre, map_zoom = 6,
        map_mapTypeId = ''hybrid'', map_draggable = False\<rparr>"
      "\<lparr>marker_position = Some defaultCentre, marker_draggable = False\<rparr>"
      "\<lparr>circle_center = Some defaultCentre, circle_radius = 150000\<rparr>"
      "\<lparr>latitude = 1, longitude = 1\<rparr>"]
  from twice have i: "updateLocation (LocObject \<lparr>latitude = 1, longitude = 1\<rparr>)
        (fst (updateLocation (LocObject \<lparr>latitude = 1, longitude = 1\<rparr>) shownMap))
      = updateLocation (LocObject \<lparr>latitude = 1, longitude = 1\<rparr>) shownMap"
    by blast
  from twice g k c have e: "updateLocation (LocObject \<lparr>latitude = 1, longitude = 1\<rparr>) shownMap =
      (shownMap\<lparr>currentLocation := Some (LatLng 1 1),
         gMap := Some \<lparr>map_container = Some \<lparr>elem_value = []\<rparr>, map_center = Some (LatLng 1 1),
           map_zoom = 6, map_mapTypeId = ''hybrid'', map_draggable = False\<rparr>,
         marker := Some \<lparr>marker_position = Some (LatLng 1 1), marker_draggable = False\<rparr>,
         circle := Some \<lparr>circle_center = Some (LatLng 1 1), circle_radius = 150000\<rparr>\<rparr>, None)"
    by simp
  have once: "snd (updateLocation (LocObject \<lparr>latitude = 1, longitude = 1\<rparr>) shownMap) = None"
    "map_option map_center
        (gMap (fst (updateLocation (LocObject \<lparr>latitude = 1, longitude = 1\<rparr>) shownMap)))
      = Some (Some (LatLng 1 1))"
    "map_option marker_position
        (marker (fst (updateLocation (LocObject \<lparr>latitude = 1, longitude = 1\<rparr>) shownMap)))
      = Some (Some (LatLng 1 1))"
    "map_option circle_center
        (circle (fst (updateLocation (LocObject \<lparr>latitude = 1, longitude = 1\<rparr>) shownMap)))
      = Some (Some (LatLng 1 1))"
    by (simp_all add: e)
  have before: "map_option map_center (gMap shownMap) = Some (Some defaultCentre)"
    "map_option marker_position (marker shownMap) = Some (Some defaultCentre)"
    "map_option circle_center (circle shownMap) = Some (Some defaultCentre)"
    by (simp_all add: g k c)
  from before i once show ?thesis
    by (intro conjI)
qed

text \<open>
  Claim C10. \<^verbatim>\<open>updateLocation\<close> with \<^verbatim>\<open>null\<close> or \<^verbatim>\<open>undefined\<close> throws a
  \<^verbatim>\<open>TypeError\<close>, raised by the setter of \<^verbatim>\<open>currentLocation\<close> where it reads
  \<^verbatim>\<open>location.latitude\<close>, and the widget, with its current location and the centres of the
  map, the marker and the circle, is as it was.
\<close>

theorem updateLocation_null_throws:
  "set_currentLocation LocNull w = Inl TypeError
   \<and> set_currentLocation LocUndefined w = Inl TypeError
   \<and> updateLocation LocNull w = (w, Some TypeError)
   \<and> updateLocation LocUndefined w = (w, Some TypeError)"
  by (simp add: updateLocation_def set_currentLocation_def)

section \<open>The address components\<close>

lemma indexOf_member: "(0 \<le> indexOf xs x) = (x \<in> set xs)"
  by (induction xs) (auto simp: Let_def)

text \<open>The downward loop applies the body to the last component first.\<close>

lemma componentsLoop_foldr:
  "k \<le> length cs \<Longrightarrow> componentsLoop cs k ac = foldr assignComponent (take k cs) ac"
proof (induction k arbitrary: ac)
  case 0
  then show ?case by simp
next
  case (Suc k)
  then show ?case by (simp add: take_Suc_conv_app_nth)
qed

lemma assignComponent_slots:
  "postalCode (assignComponent c ac) =
     (if categoryOf c = Some ''postal_code'' then namesOf c else postalCode ac)"
  "streetNumber (assignComponent c ac) =
     (if categoryOf c = Some ''street_number'' then namesOf c else streetNumber ac)"
  "streetName (assignComponent c ac) =
     (if categoryOf c = Some ''route'' then namesOf c else streetName ac)"
  "city (assignComponent c ac) =
     (if categoryOf c = Some ''locality'' then namesOf c else city ac)"
  "district (assignComponent c ac) =
     (if categoryOf c = Some ''sublocality'' then namesOf c else district ac)"
  "stateOrProvince (assignComponent c ac) =
     (if categoryOf c = Some ''administrative_area_level_1'' then namesOf c
      else stateOrProvince ac)"
  "country (assignComponent c ac) =
     (if categoryOf c = Some ''country'' then namesOf c else country ac)"
  by (simp_all add: assignComponent_def categoryOf_def categories_def indexOf_member)

lemma foldr_assignComponent_slots:
  "postalCode (foldr assignComponent cs ac) =
     (case find (\<lambda>c. categoryOf c = Some ''postal_code'') cs of
        None \<Rightarrow> postalCode ac | Some c \<Rightarrow> namesOf c)"
  "streetNumber (foldr assignComponent cs ac) =
     (case find (\<lambda>c. categoryOf c = Some ''street_number'') cs of
        None \<Rightarrow> streetNumber ac | Some c \<Rightarrow> namesOf c)"
  "streetName (foldr assignComponent cs ac) =
     (case find (\<lambda>c. categoryOf c = Some ''route'') cs of
        None \<Rightarrow> streetName ac | Some c \<Rightarrow> namesOf c)"
  "city (foldr assignComponent cs ac) =
     (case find (\<lambda>c. categoryOf c = Some ''locality'') cs of
        None \<Rightarrow> city ac | Some c \<Rightarrow> namesOf c)"
  "district (foldr assignComponent cs ac) =
     (case find (\<lambda>c. categoryOf c = Some ''sublocality'') cs of
        None \<Rightarrow> district ac | Some c \<Rightarrow> namesOf c)"
  "stateOrProvince (foldr assignComponent cs ac) =
     (case find (\<lambda>c. categoryOf c = Some ''administrative_area_level_1'') cs of
        None \<Rightarrow> stateOrProvince ac | Some c \<Rightarrow> namesOf c)"
  "country (foldr assignComponent cs ac) =
     (case find (\<lambda>c. categoryOf c = Some ''country'') cs of
        None \<Rightarrow> country ac | Some c \<Rightarrow> namesOf c)"
  by (induction cs) (simp_all add: assignComponent_slots)

lemma buildComponents_slots:
  "postalCode (buildComponents r) = firstOfCategory ''postal_code'' (address_components r)"
  "streetNumber (buildComponents r) = firstOfCategory ''street_number'' (address_components r)"
  "streetName (buildComponents r) = firstOfCategory ''route'' (address_components r)"
  "city (buildComponents r) = firstOfCategory ''locality'' (address_components r)"
  "district (buildComponents r) = firstOfCategory ''sublocality'' (address_components r)"
  "stateOrProvince (buildComponents r) =
     firstOfCategory ''administrative_area_level_1'' (address_components r)"
  "country (buildComponents r) = firstOfCategory ''country'' (address_components r)"
  "formattedAddress (buildComponents r) = Some (formatted_address r)"
  by (simp_all add: buildComponents_def componentsLoop_foldr foldr_assignComponent_slots
      firstOfCategory_def emptyComponents_def split: option.splits)

text \<open>
  Where no component carries two of the tested tags, the category of a component is its
  one tested tag, and the setter's slots are the specification's.
\<close>

lemma find_the_only_one:
  "P t \<Longrightarrow> t \<in> set xs \<Longrightarrow> length (filter P xs) \<le> 1 \<Longrightarrow> find P xs = Some t"
  by (induction xs) (auto simp: filter_empty_conv)

lemma find_at_most_one:
  assumes "length (filter P xs) \<le> 1" and "t \<in> set xs"
  shows "(find P xs = Some t) = P t"
proof
  assume "find P xs = Some t"
  then show "P t" by (auto simp: find_Some_iff)
next
  assume "P t"
  from find_the_only_one [OF this assms(2) assms(1)] show "find P xs = Some t" .
qed

lemma firstOfCategory_single_tag:
  assumes "\<And>c. c \<in> set cs \<Longrightarrow> length (filter (\<lambda>t. t \<in> set (types c)) categories) \<le> 1"
    and "t \<in> set categories"
  shows "firstOfCategory t cs = specSlot t cs"
proof -
  have "find (\<lambda>c. categoryOf c = Some t) cs = find (\<lambda>c. t \<in> set (types c)) cs"
    by (rule find_cong)
      (simp_all add: categoryOf_def find_at_most_one [OF assms(1) assms(2)])
  then show ?thesis
    by (simp add: firstOfCategory_def specSlot_def)
qed

text \<open>
  Claim C2, as the code has it. For a result list with a first result, the setter stores a
  record that is the same whatever the geocoder held before. Each of its seven slots has
  the names of the first component, in list order, whose category is the slot's tag, the
  category of a component being the first of postal_code, street_number, route, locality,
  sublocality, administrative_area_level_1, country among its type tags; a slot with no
  such component has \<^verbatim>\<open>null\<close> names. Other tags play no part. The formatted address is
  that of the first result.
\<close>

theorem set_addressComponents_first_of_category:
  "\<exists>ac. (\<forall>g. set_addressComponents (r # rest) g =
             Inr (g\<lparr>stored_addressComponents := Some ac\<rparr>))
     \<and> postalCode ac = firstOfCategory ''postal_code'' (address_components r)
     \<and> streetNumber ac = firstOfCategory ''street_number'' (address_components r)
     \<and> streetName ac = firstOfCategory ''route'' (address_components r)
     \<and> city ac = firstOfCategory ''locality'' (address_components r)
     \<and> district ac = firstOfCategory ''sublocality'' (address_components r)
     \<and> stateOrProvince ac =
         firstOfCategory ''administrative_area_level_1'' (address_components r)
     \<and> country ac = firstOfCategory ''country'' (address_components r)
     \<and> formattedAddress ac = Some (formatted_address r)"
  by (rule exI [of _ "buildComponents r"])
    (simp add: set_addressComponents_def buildComponents_slots)

text \<open>
  Claim C2 as the specification words it fails where a component carries two of the tested
  tags. The one component of \<open>cityState\<close> has the tags locality and country: the chain
  stops at locality, so the country slot stays \<^verbatim>\<open>null\<close>, while the first component whose
  tags include country is this one.
\<close>

theorem set_addressComponents_first_tag_counterexample:
  "map_option country (stored_addressComponents
      (projr (set_addressComponents [cityState] Geocoder_constructor)))
     = Some nullNames
   \<and> specSlot ''country'' (address_components cityState)
     = \<lparr>longName = Some ''City State'', shortName = Some ''CS''\<rparr>
   \<and> map_option country (stored_addressComponents
      (projr (set_addressComponents [cityState] Geocoder_constructor)))
     \<noteq> Some (specSlot ''country'' (address_components cityState))"
  by (simp add: set_addressComponents_def cityState_def buildComponents_def
      assignComponent_def specSlot_def emptyComponents_def nullNames_def namesOf_def)

section \<open>The retry of a rate-limited request\<close>

text \<open>
  A promise that is pending and has no request in flight stays pending through every
  event: a response settles only the promise of the request it answers, and a timer only
  creates a new promise.
\<close>

lemma pending_step:
  assumes "p < length (promises g)" and "promises g ! p = Pending"
    and "p \<notin> fst ` set (inflight g)"
  shows "p < length (promises (step e g)) \<and> promises (step e g) ! p = Pending
     \<and> p \<notin> fst ` set (inflight (step e g))"
proof (cases e)
  case (Respond q results status)
  show ?thesis
  proof (cases "map_of (inflight g) q")
    case None
    with Respond assms show ?thesis by simp
  next
    case (Some opts)
    from map_of_SomeD [OF Some] have "(q, opts) \<in> set (inflight g)" .
    then have "q \<in> fst ` set (inflight g)"
      by force
    with assms(3) have "q \<noteq> p" by blast
    with Respond Some assms show ?thesis
      by (auto simp: geocodeCallback_def settle_def set_addressComponents_def
          get_addressComponents_def split: list.splits)
  qed
next
  case Fire
  with assms show ?thesis
    by (auto simp: geocode_def Let_def nth_append split: list.splits)
qed

lemma pending_run:
  assumes "p < length (promises g)" and "promises g ! p = Pending"
    and "p \<notin> fst ` set (inflight g)"
  shows "promises (run es g) ! p = Pending"
  using assms
proof (induction es arbitrary: g)
  case Nil
  then show ?case by simp
next
  case (Cons e es)
  from pending_step [OF Cons.prems, of e] Cons.IH show ?case by simp
qed

text \<open>
  So on any geocoder, the promise a \<^verbatim>\<open>geocode\<close> call returns is pending for ever once its
  request has been answered with \<^verbatim>\<open>OVER_QUERY_LIMIT\<close>, whatever the provider answers to
  the retries.
\<close>

lemma rate_limited_never_settles:
  "promises (run es (step (Respond (fst (geocode x g)) results OVER_QUERY_LIMIT)
      (snd (geocode x g)))) ! fst (geocode x g) = Pending"
proof (rule pending_run)
  let ?p = "fst (geocode x g)" and ?g1 = "snd (geocode x g)"
  have "map_of (inflight ?g1) ?p \<noteq> None"
    by (simp add: geocode_def Let_def map_of_eq_None_iff)
  then obtain o' where o': "map_of (inflight ?g1) ?p = Some o'" by blast
  let ?g2 = "step (Respond ?p results OVER_QUERY_LIMIT) ?g1"
  have g2: "?g2 = (?g1\<lparr>inflight := filter (\<lambda>q. fst q \<noteq> ?p) (inflight ?g1)\<rparr>)
      \<lparr>timers := timers ?g1 @ [(now ?g1 + 1000, o')]\<rparr>"
    using o' by (simp add: geocodeCallback_def)
  show "?p < length (promises ?g2)" unfolding g2 by (simp add: geocode_def Let_def)
  show "promises ?g2 ! ?p = Pending" unfolding g2 by (simp add: geocode_def Let_def)
  show "?p \<notin> fst ` set (inflight ?g2)" unfolding g2 by auto
qed

text \<open>
  Claim C1, on the run \<open>retried\<close>. The call returns promise 0. The request is made again
  with the same options 1000 ms after the rate-limited answer, and the answer to the retry
  fulfils promise 1, the one the retry created and dropped, and stores the address
  components. Promise 0, the one the caller holds, is pending; no request and no timer is
  left, and it stays pending through any further events. The specification has it settle
  with the outcome of the retry.
\<close>

theorem geocode_retry_leaves_promise_pending:
  "fst (geocode accra Geocoder_constructor) = 0
   \<and> requests retried = [(0, accra), (1000, accra)]
   \<and> promises retried = [Pending, Resolved (Some (buildComponents oneResult))]
   \<and> stored_addressComponents retried = Some (buildComponents oneResult)
   \<and> inflight retried = [] \<and> timers retried = []
   \<and> promises (run es retried) ! 0 = Pending"
proof -
  have r: "retried = \<lparr>stored_addressComponents = Some (buildComponents oneResult),
      promises = [Pending, Resolved (Some (buildComponents oneResult))], inflight = [],
      timers = [], requests = [(0, accra), (1000, accra)], now = 1000\<rparr>"
    by (simp add: retried_def geocode_def Geocoder_constructor_def geocodeCallback_def
        set_addressComponents_def get_addressComponents_def settle_def)
  have "promises (run es retried) ! 0 = Pending"
    by (rule pending_run) (simp_all add: r)
  then show ?thesis
    by (simp add: r geocode_def Geocoder_constructor_def)
qed

end
